theory Spec2Isabelle
  imports Main
begin

section \<open>Time values and durations\<close>

text \<open>
  A Go \<open>time.Time\<close> is an instant together with a location. The instant is counted in
  nanoseconds; the location only changes how the instant is displayed and which calendar
  fields a schedule sees, never the order of two instants. \<open>After\<close> and \<open>Sub\<close> therefore
  read the instant alone. A \<open>time.Duration\<close> is a signed 64-bit count of nanoseconds, and
  \<open>Time.Sub\<close> does not wrap: it returns the smallest or the largest duration when the
  difference does not fit.
\<close>

type_synonym Location = string

record Time =
  instant :: int
  location :: Location

type_synonym Duration = int

definition Minute :: Duration where
  "Minute = 60 * 1000000000"

definition minDuration :: Duration where
  "minDuration = - (2 ^ 63)"

definition maxDuration :: Duration where
  "maxDuration = 2 ^ 63 - 1"

definition After :: "Time \<Rightarrow> Time \<Rightarrow> bool" where
  "After t u \<longleftrightarrow> instant u < instant t"

definition Sub :: "Time \<Rightarrow> Time \<Rightarrow> Duration" where
  "Sub t u =
     (let d = instant t - instant u in
      if minDuration \<le> d \<and> d \<le> maxDuration then d
      else if instant t < instant u then minDuration
      else maxDuration)"

definition In :: "Time \<Rightarrow> Location \<Rightarrow> Time" where
  "In t loc = t\<lparr>location := loc\<rparr>"

section \<open>The declared resource\<close>

text \<open>
  \<open>api/v1\<close>: \<open>AutoRestartPodSpec\<close>, \<open>AutoRestartPodStatus\<close> and \<open>AutoRestartPod\<close>. The
  \<open>*metav1.Time\<close> pointer of the status is an option. A \<open>metav1.LabelSelector\<close> keeps its
  two fields; a requirement of \<open>MatchExpressions\<close> is its key, operator and values.
\<close>

record LabelSelector =
  MatchLabels :: "(string \<times> string) list"
  MatchExpressions :: "(string \<times> string \<times> string list) list"

record AutoRestartPodSpec =
  Schedule :: string
  Selector :: LabelSelector
  TimeZone :: string

record AutoRestartPodStatus =
  LastRestartTime :: "Time option"

record AutoRestartPod =
  Spec :: AutoRestartPodSpec
  Status :: AutoRestartPodStatus

text \<open>\<open>ctrl.Result\<close>: the reconciler only ever sets \<open>RequeueAfter\<close>.\<close>

record Result =
  RequeueAfter :: Duration

section \<open>Collaborators\<close>

text \<open>
  Everything \<open>Reconcile\<close> calls lives outside the repository: the cron library, the time
  zone database, the label selector compiler and the API server client. They are inputs of
  the model, one record per invocation.

  \<^item> A \<open>cron.Schedule\<close> is an interface with the single method \<open>Next\<close>; a schedule is that
    method.
  \<^item> A \<open>labels.Selector\<close> is opaque to the reconciler, which only hands it to \<open>List\<close>; it
    is modelled by its printed form. The nil interface value is \<open>None\<close>.
  \<^item> An error is a value; the one panic the code can raise itself (a method call on the nil
    selector) is a separate constructor. A call that panics ends the attempt where a call
    that returns an error does, so a panic inside a collaborator is one of its error
    outcomes.
\<close>

type_synonym Schedule = "Time \<Rightarrow> Time"

type_synonym LabelsSelector = string

type_synonym Pod = string

datatype error = Err string | NilSelectorPanic

record Collaborators =
  get_result :: "error option"
    \<comment> \<open>\<open>r.Get\<close>: \<open>Some err\<close> when the read fails, else the stored object is returned\<close>
  parse_standard :: "string \<Rightarrow> error + Schedule"
    \<comment> \<open>\<open>Parse\<close> of the parser built with \<open>Minute | Hour | Dom | Month | Dow | Descriptor\<close>\<close>
  parse_seconds :: "string \<Rightarrow> error + Schedule"
    \<comment> \<open>\<open>Parse\<close> of the parser built with \<open>Second | Minute | Hour | Dom | Month | Dow | Descriptor\<close>\<close>
  time_Now :: Time
    \<comment> \<open>the reading of \<open>time.Now()\<close> that becomes \<open>now\<close>\<close>
  time_LoadLocation :: "string \<Rightarrow> error + Location"
  LabelSelectorAsSelector :: "LabelSelector \<Rightarrow> error + LabelsSelector"
  list_result :: "LabelsSelector option \<Rightarrow> error + Pod list"
    \<comment> \<open>\<open>r.List\<close> in the request's namespace with the given selector\<close>
  delete_result :: "Pod \<Rightarrow> error option"
    \<comment> \<open>\<open>r.Delete\<close> of one pod\<close>
  update_result :: "error option"
    \<comment> \<open>\<open>r.Status().Update\<close>\<close>
  time_Now_until :: Time
    \<comment> \<open>the later reading of \<open>time.Now()\<close> made inside \<open>time.Until\<close>\<close>

section \<open>The cluster\<close>

text \<open>
  The state the reconciler acts on: the stored resource, the pods of the namespace, and
  the requests issued to the API server so far, oldest first. A request is recorded
  whether or not it succeeds; the stored resource and the pods change only when it does.
  A status update stores the status it is sent and leaves the spec alone; a successful
  delete removes the pod of that name.
\<close>

datatype Call =
    GetCall
  | ListCall "LabelsSelector option"
  | DeleteCall Pod
  | StatusUpdateCall "Time option"

record Cluster =
  object :: AutoRestartPod
  pods :: "Pod list"
  calls :: "Call list"

definition client_Get :: "Collaborators \<Rightarrow> Cluster \<Rightarrow> (error + AutoRestartPod) \<times> Cluster" where
  "client_Get k c =
     (case get_result k of
        Some err \<Rightarrow> (Inl err, c\<lparr>calls := calls c @ [GetCall]\<rparr>)
      | None \<Rightarrow> (Inr (object c), c\<lparr>calls := calls c @ [GetCall]\<rparr>))"

definition client_List ::
  "Collaborators \<Rightarrow> LabelsSelector option \<Rightarrow> Cluster \<Rightarrow> (error + Pod list) \<times> Cluster" where
  "client_List k selector c = (list_result k selector, c\<lparr>calls := calls c @ [ListCall selector]\<rparr>)"

definition client_Delete :: "Collaborators \<Rightarrow> Pod \<Rightarrow> Cluster \<Rightarrow> error option \<times> Cluster" where
  "client_Delete k pod c =
     (case delete_result k pod of
        Some err \<Rightarrow> (Some err, c\<lparr>calls := calls c @ [DeleteCall pod]\<rparr>)
      | None \<Rightarrow> (None, c\<lparr>pods := removeAll pod (pods c), calls := calls c @ [DeleteCall pod]\<rparr>))"

definition client_Status_Update ::
  "Collaborators \<Rightarrow> AutoRestartPod \<Rightarrow> Cluster \<Rightarrow> error option \<times> Cluster" where
  "client_Status_Update k obj c =
     (case update_result k of
        Some err \<Rightarrow>
          (Some err, c\<lparr>calls := calls c @ [StatusUpdateCall (LastRestartTime (Status obj))]\<rparr>)
      | None \<Rightarrow>
          (None, c\<lparr>object := (object c)\<lparr>Status := Status obj\<rparr>,
                   calls := calls c @ [StatusUpdateCall (LastRestartTime (Status obj))]\<rparr>))"

section \<open>The reconciler\<close>

text \<open>
  \<open>parseCronSchedule\<close> (the same text in both versions of the controller): the standard
  parser first, the parser with a seconds field when the standard one fails.
\<close>

definition parseCronSchedule :: "Collaborators \<Rightarrow> string \<Rightarrow> error + Schedule" where
  "parseCronSchedule k schedule =
     (case parse_standard k schedule of
        Inr sch \<Rightarrow> Inr sch
      | Inl _ \<Rightarrow> parse_seconds k schedule)"

text \<open>
  The block that computes \<open>now\<close> (the same text in both versions): with a time zone, load
  it and convert the clock reading; without one, the clock reading as it is.
\<close>

definition now_in_zone :: "Collaborators \<Rightarrow> string \<Rightarrow> error + Time" where
  "now_in_zone k tz =
     (if tz \<noteq> [] then
        (case time_LoadLocation k tz of
           Inl err \<Rightarrow> Inl err
         | Inr loc \<Rightarrow> Inr (In (time_Now k) loc))
      else Inr (time_Now k))"

text \<open>
  \<open>selector, _ := metav1.LabelSelectorAsSelector(&obj.Spec.Selector)\<close>: the error is
  dropped, and with it the selector is the nil interface.
\<close>

definition selector_ignoring_error :: "Collaborators \<Rightarrow> LabelSelector \<Rightarrow> LabelsSelector option" where
  "selector_ignoring_error k sel =
     (case LabelSelectorAsSelector k sel of
        Inl _ \<Rightarrow> None
      | Inr s \<Rightarrow> Some s)"

text \<open>
  \<open>for _, pod := range podList.Items\<close>: every pod is sent a delete; a failure is logged and
  the loop goes on.
\<close>

fun delete_pods :: "Collaborators \<Rightarrow> Pod list \<Rightarrow> Cluster \<Rightarrow> Cluster" where
  "delete_pods k [] c = c"
| "delete_pods k (pod # items) c = delete_pods k items (snd (client_Delete k pod c))"

text \<open>\<open>Reconcile\<close> of \<open>internal/controller/autorestartpod_controller.go\<close>.\<close>

definition Reconcile :: "Collaborators \<Rightarrow> Cluster \<Rightarrow> (error + Result) \<times> Cluster" where
  "Reconcile k c0 =
     (case client_Get k c0 of
        (Inl err, c1) \<Rightarrow> (Inl err, c1)
      | (Inr obj, c1) \<Rightarrow>
     (case parseCronSchedule k (Schedule (Spec obj)) of
        Inl err \<Rightarrow> (Inl err, c1)
      | Inr schedule \<Rightarrow>
     (case now_in_zone k (TimeZone (Spec obj)) of
        Inl err \<Rightarrow> (Inl err, c1)
      | Inr now \<Rightarrow>
     (let nextRun = schedule now in
      if After nextRun now then (Inr \<lparr>RequeueAfter = Sub nextRun now\<rparr>, c1)
      else
        (let selector = selector_ignoring_error k (Selector (Spec obj)) in
         case client_List k selector c1 of
           (Inl err, c2) \<Rightarrow> (Inl err, c2)
         | (Inr items, c2) \<Rightarrow>
        (let c3 = delete_pods k items c2;
             obj' = obj\<lparr>Status := \<lparr>LastRestartTime = Some now\<rparr>\<rparr> in
         case client_Status_Update k obj' c3 of
           (Some err, c4) \<Rightarrow> (Inl err, c4)
         | (None, c4) \<Rightarrow> (Inr \<lparr>RequeueAfter = Sub nextRun (time_Now_until k)\<rparr>, c4)))))))"

text \<open>
  \<open>Reconcile\<close> of the second version of the controller (\<open>unnamed/part_000\<close>).
  \<open>needsRestart\<close> is its local variable of that name. When the listing fails it logs
  \<open>selector.String()\<close>, which panics on the nil selector.
\<close>

definition needsRestart :: "Time \<Rightarrow> Time \<Rightarrow> bool" where
  "needsRestart nextRun now \<longleftrightarrow> \<not> After nextRun now \<or> Sub nextRun now < Minute"

definition Reconcile_part_000 :: "Collaborators \<Rightarrow> Cluster \<Rightarrow> (error + Result) \<times> Cluster" where
  "Reconcile_part_000 k c0 =
     (case client_Get k c0 of
        (Inl err, c1) \<Rightarrow> (Inl err, c1)
      | (Inr obj, c1) \<Rightarrow>
     (case parseCronSchedule k (Schedule (Spec obj)) of
        Inl err \<Rightarrow> (Inl err, c1)
      | Inr schedule \<Rightarrow>
     (case now_in_zone k (TimeZone (Spec obj)) of
        Inl err \<Rightarrow> (Inl err, c1)
      | Inr now \<Rightarrow>
     (let nextRun = schedule now in
      if needsRestart nextRun now then
        (let obj' = obj\<lparr>Status := \<lparr>LastRestartTime = Some now\<rparr>\<rparr> in
         case client_Status_Update k obj' c1 of
           (Some err, c2) \<Rightarrow> (Inl err, c2)
         | (None, c2) \<Rightarrow>
        (let selector = selector_ignoring_error k (Selector (Spec obj')) in
         case client_List k selector c2 of
           (Inl err, c3) \<Rightarrow>
             (case selector of
                None \<Rightarrow> (Inl NilSelectorPanic, c3)
              | Some _ \<Rightarrow> (Inl err, c3))
         | (Inr items, c3) \<Rightarrow>
        (let c4 = delete_pods k items c3;
             nextRun' = schedule now in
         (Inr \<lparr>RequeueAfter = Sub nextRun' now\<rparr>, c4))))
      else
        (if LastRestartTime (Status obj) = None then
           (let obj' = obj\<lparr>Status := \<lparr>LastRestartTime = Some now\<rparr>\<rparr> in
            case client_Status_Update k obj' c1 of
              (Some err, c2) \<Rightarrow> (Inl err, c2)
            | (None, c2) \<Rightarrow> (Inr \<lparr>RequeueAfter = Sub nextRun now\<rparr>, c2))
         else (Inr \<lparr>RequeueAfter = Sub nextRun now\<rparr>, c1))))))"

section \<open>Vocabulary of the properties\<close>

text \<open>The requests issued between an earlier and a later state of the cluster.\<close>

definition issued :: "Cluster \<Rightarrow> Cluster \<Rightarrow> Call list" where
  "issued c c' = drop (length (calls c)) (calls c')"

fun is_ListCall :: "Call \<Rightarrow> bool" where
  "is_ListCall (ListCall _) = True"
| "is_ListCall _ = False"

fun is_DeleteCall :: "Call \<Rightarrow> bool" where
  "is_DeleteCall (DeleteCall _) = True"
| "is_DeleteCall _ = False"

text \<open>
  Both versions list the pods only on the path that restarts them, so a run carried out a
  restart exactly when it issued a list request.
\<close>

definition restarted :: "Cluster \<Rightarrow> (error + Result) \<times> Cluster \<Rightarrow> bool" where
  "restarted c r \<longleftrightarrow> list_ex is_ListCall (issued c (snd r))"

definition lastRestartTime :: "Cluster \<Rightarrow> Time option" where
  "lastRestartTime c = LastRestartTime (Status (object c))"

text \<open>The cluster with another stored \<open>status.lastRestartTime\<close>.\<close>

definition with_status :: "Time option \<Rightarrow> Cluster \<Rightarrow> Cluster" where
  "with_status st c = c\<lparr>object := (object c)\<lparr>Status := \<lparr>LastRestartTime = st\<rparr>\<rparr>\<rparr>"

text \<open>The order of two values of \<open>status.lastRestartTime\<close>; unset comes first.\<close>

fun not_later :: "Time option \<Rightarrow> Time option \<Rightarrow> bool" where
  "not_later None _ = True"
| "not_later (Some t) None = False"
| "not_later (Some t) (Some u) = (instant t \<le> instant u)"

text \<open>
  The control loop invokes a reconciler again and again on the same object, each time with
  the collaborators as they are then. \<open>states\<close> lists the cluster before the first
  invocation and after each one.
\<close>

fun states ::
  "(Collaborators \<Rightarrow> Cluster \<Rightarrow> (error + Result) \<times> Cluster) \<Rightarrow> Collaborators list \<Rightarrow> Cluster \<Rightarrow> Cluster list"
  where
  "states R [] c = [c]"
| "states R (k # ks) c = c # states R ks (snd (R k c))"

text \<open>
  The runs on which the two versions of \<open>Reconcile\<close> will be shown to coincide: the read,
  the parse or the time zone fails, or the next run is at least a minute ahead and
  \<open>status.lastRestartTime\<close> is already set.
\<close>

definition versions_agree_on :: "Collaborators \<Rightarrow> Cluster \<Rightarrow> bool" where
  "versions_agree_on k c \<longleftrightarrow>
     (case get_result k of
        Some _ \<Rightarrow> True
      | None \<Rightarrow>
     (case parseCronSchedule k (Schedule (Spec (object c))) of
        Inl _ \<Rightarrow> True
      | Inr schedule \<Rightarrow>
     (case now_in_zone k (TimeZone (Spec (object c))) of
        Inl _ \<Rightarrow> True
      | Inr now \<Rightarrow> Minute \<le> Sub (schedule now) now \<and> lastRestartTime c \<noteq> None)))"

section \<open>Example inputs\<close>

text \<open>
  Three schedules as their \<open>Next\<close>. Instants are counted from the zero \<open>Time\<close>, so whole
  minutes are multiples of sixty seconds. The third is what the cron library returns for
  an expression no date satisfies (the thirty-first of February): the zero \<open>Time\<close>.
\<close>

definition every_5_minutes :: Schedule where
  "every_5_minutes t = t\<lparr>instant := (instant t div 300000000000 + 1) * 300000000000\<rparr>"

definition every_second :: Schedule where
  "every_second t = t\<lparr>instant := (instant t div 1000000000 + 1) * 1000000000\<rparr>"

definition never_fires :: Schedule where
  "never_fires t = \<lparr>instant = 0, location = ''UTC''\<rparr>"

definition example_parse_standard :: "string \<Rightarrow> error + Schedule" where
  "example_parse_standard s =
     (if s = ''*/5 * * * *'' then Inr every_5_minutes
      else if s = ''0 0 31 2 *'' then Inr never_fires
      else Inl (Err ''expected exactly 5 fields''))"

definition example_parse_seconds :: "string \<Rightarrow> error + Schedule" where
  "example_parse_seconds s =
     (if s = ''* * * * * *'' then Inr every_second
      else Inl (Err ''expected exactly 6 fields''))"

text \<open>Noon of 26 May 2025 (UTC), in nanoseconds from the zero \<open>Time\<close>.\<close>

definition noon :: int where
  "noon = 63883857600000000000"

definition seconds :: "int \<Rightarrow> int" where
  "seconds n = n * 1000000000"

definition example_object :: AutoRestartPod where
  "example_object =
     \<lparr>Spec = \<lparr>Schedule = ''*/5 * * * *'',
              Selector = \<lparr>MatchLabels = [(''app'', ''nginx'')], MatchExpressions = []\<rparr>,
              TimeZone = ''Asia/Shanghai''\<rparr>,
      Status = \<lparr>LastRestartTime = None\<rparr>\<rparr>"

definition example_cluster :: Cluster where
  "example_cluster =
     \<lparr>object = example_object, pods = [''nginx-0'', ''nginx-1'', ''nginx-2'', ''db-0''], calls = []\<rparr>"

definition with_schedule :: "string \<Rightarrow> Cluster \<Rightarrow> Cluster" where
  "with_schedule s c = c\<lparr>object := (object c)\<lparr>Spec := (Spec (object c))\<lparr>Schedule := s\<rparr>\<rparr>\<rparr>"

definition with_selector :: "LabelSelector \<Rightarrow> Cluster \<Rightarrow> Cluster" where
  "with_selector sel c = c\<lparr>object := (object c)\<lparr>Spec := (Spec (object c))\<lparr>Selector := sel\<rparr>\<rparr>\<rparr>"

text \<open>
  Collaborators that all succeed, but for the delete of \<open>nginx-1\<close>. The clock reads the
  given number of seconds after noon. A selector with an unknown operator does not
  compile, and a listing with the nil selector panics inside the client, as it does with
  the controller-runtime release the controller is written against (v0.21.0).
\<close>

definition example_collaborators :: "int \<Rightarrow> Collaborators" where
  "example_collaborators s =
     \<lparr>get_result = None,
      parse_standard = example_parse_standard,
      parse_seconds = example_parse_seconds,
      time_Now = \<lparr>instant = noon + seconds s, location = ''Local''\<rparr>,
      time_LoadLocation =
        (\<lambda>tz. if tz = ''Asia/Shanghai'' then Inr tz else Inl (Err ''unknown time zone'')),
      LabelSelectorAsSelector =
        (\<lambda>sel. if list_all (\<lambda>(key, operator, vs). operator \<in> set [''In'', ''NotIn'', ''Exists'', ''DoesNotExist''])
                     (MatchExpressions sel)
               then Inr ''app=nginx''
               else Inl (Err ''not a valid label selector operator'')),
      list_result =
        (\<lambda>selector. case selector of
                      None \<Rightarrow> Inl NilSelectorPanic
                    | Some _ \<Rightarrow> Inr [''nginx-0'', ''nginx-1'', ''nginx-2'']),
      delete_result = (\<lambda>pod. if pod = ''nginx-1'' then Some (Err ''delete refused'') else None),
      update_result = None,
      time_Now_until = \<lparr>instant = noon + seconds s + 1000000, location = ''Local''\<rparr>\<rparr>"

definition malformed_selector :: LabelSelector where
  "malformed_selector = \<lparr>MatchLabels = [], MatchExpressions = [(''app'', ''Equals'', [''nginx''])]\<rparr>"

text \<open>The same collaborators with a listing that fails.\<close>

definition list_fails :: "Collaborators \<Rightarrow> Collaborators" where
  "list_fails k = k\<lparr>list_result := (\<lambda>selector. Inl (Err ''list failed''))\<rparr>"

section \<open>The delete loop\<close>

lemma object_delete_pods: "object (delete_pods k items c) = object c"
  by (induction items arbitrary: c) (auto simp: client_Delete_def split: option.splits)

lemma calls_delete_pods: "calls (delete_pods k items c) = calls c @ map DeleteCall items"
  by (induction items arbitrary: c) (auto simp: client_Delete_def split: option.splits)

lemma pods_delete_pods:
  "pods (delete_pods k items c) =
     filter (\<lambda>p. \<not> (p \<in> set items \<and> delete_result k p = None)) (pods c)"
proof (induction items arbitrary: c)
  case Nil
  show ?case by simp
next
  case (Cons pod items)
  show ?case
  proof (cases "delete_result k pod")
    case None
    then show ?thesis
      using Cons.IH [of "snd (client_Delete k pod c)"]
      by (auto simp: client_Delete_def removeAll_filter_not_eq intro!: filter_cong)
  next
    case (Some err)
    then show ?thesis
      using Cons.IH [of "snd (client_Delete k pod c)"]
      by (auto simp: client_Delete_def intro!: filter_cong)
  qed
qed

section \<open>Evaluating the examples\<close>

lemmas example_defs =
  example_collaborators_def example_cluster_def example_object_def example_parse_standard_def
  example_parse_seconds_def with_schedule_def with_selector_def with_status_def noon_def seconds_def
  list_fails_def malformed_selector_def

section \<open>Parsing the schedule\<close>

text \<open>
  Claim C6. \<open>parseCronSchedule\<close> returns the result of the standard (five-field) parser
  whenever that parser succeeds, whatever the parser with seconds would say; when the
  standard parser fails, the result is that of the six-field parser. When both fail,
  \<open>Reconcile\<close> (either version) returns the error of the six-field parser, having issued
  nothing but the read of the resource: no restart, and the stored resource and the pods
  are as before.
\<close>

theorem parseCronSchedule_standard_first:
  "(parse_standard k s = Inr sch \<longrightarrow> parseCronSchedule k s = Inr sch) \<and>
   (parse_standard k s = Inl e \<longrightarrow> parseCronSchedule k s = parse_seconds k s) \<and>
   (get_result k = None \<and>
    parse_standard k (Schedule (Spec (object c))) = Inl e1 \<and>
    parse_seconds k (Schedule (Spec (object c))) = Inl e2 \<longrightarrow>
      Reconcile k c = (Inl e2, c\<lparr>calls := calls c @ [GetCall]\<rparr>) \<and>
      Reconcile_part_000 k c = (Inl e2, c\<lparr>calls := calls c @ [GetCall]\<rparr>))"
  by (simp add: parseCronSchedule_def Reconcile_def Reconcile_part_000_def client_Get_def)

theorem parseCronSchedule_standard_first_witness:
  "parse_standard (example_collaborators 60) ''*/5 * * * *'' = Inr every_5_minutes \<and>
   parseCronSchedule (example_collaborators 60) ''*/5 * * * *'' = Inr every_5_minutes \<and>
   parse_standard (example_collaborators 60) ''* * * * * *'' = Inl (Err ''expected exactly 5 fields'') \<and>
   parseCronSchedule (example_collaborators 60) ''* * * * * *'' = Inr every_second \<and>
   get_result (example_collaborators 60) = None \<and>
   parse_standard (example_collaborators 60) ''not-a-cron'' = Inl (Err ''expected exactly 5 fields'') \<and>
   parse_seconds (example_collaborators 60) ''not-a-cron'' = Inl (Err ''expected exactly 6 fields'') \<and>
   Reconcile (example_collaborators 60) (with_schedule ''not-a-cron'' example_cluster) =
     (Inl (Err ''expected exactly 6 fields''),
      (with_schedule ''not-a-cron'' example_cluster)\<lparr>calls := [GetCall]\<rparr>) \<and>
   Reconcile_part_000 (example_collaborators 60) (with_schedule ''not-a-cron'' example_cluster) =
     (Inl (Err ''expected exactly 6 fields''),
      (with_schedule ''not-a-cron'' example_cluster)\<lparr>calls := [GetCall]\<rparr>)"
  using parseCronSchedule_standard_first
          [where k = "example_collaborators 60" and s = "''*/5 * * * *''" and sch = every_5_minutes]
        parseCronSchedule_standard_first
          [where k = "example_collaborators 60" and s = "''* * * * * *''"
             and e = "Err ''expected exactly 5 fields''"
             and c = "with_schedule ''not-a-cron'' example_cluster"
             and ?e1.0 = "Err ''expected exactly 5 fields''"
             and ?e2.0 = "Err ''expected exactly 6 fields''"]
  by (simp add: example_defs)

section \<open>Facts shared by the properties\<close>

lemmas model_defs =
  Reconcile_def Reconcile_part_000_def client_Get_def client_List_def client_Delete_def
  client_Status_Update_def parseCronSchedule_def now_in_zone_def selector_ignoring_error_def
  needsRestart_def After_def Sub_def In_def Minute_def minDuration_def maxDuration_def Let_def

lemmas property_defs = issued_def restarted_def lastRestartTime_def

lemmas schedule_defs = every_5_minutes_def every_second_def never_fires_def

text \<open>
  The saturation of \<open>Sub\<close> never changes the decision: the second version restarts exactly
  when the next run is less than a minute ahead of \<open>now\<close>, a next run in the past included.
\<close>

lemma needsRestart_iff: "needsRestart nextRun now \<longleftrightarrow> instant nextRun - instant now < Minute"
  by (auto simp: needsRestart_def After_def Sub_def Minute_def minDuration_def maxDuration_def Let_def)

lemma After_iff_Sub_pos: "After t u \<longleftrightarrow> 0 < Sub t u"
  by (auto simp: After_def Sub_def minDuration_def maxDuration_def Let_def)

lemma issued_append [simp]: "issued c (c'\<lparr>calls := calls c @ xs\<rparr>) = xs"
  by (simp add: issued_def)

text \<open>
  Once the read, the parse and the time zone have succeeded, the first two requests of a
  run are these.
\<close>

lemma Reconcile_first_requests:
  assumes "get_result k = None"
    and "parseCronSchedule k (Schedule (Spec (object c))) = Inr schedule"
    and "now_in_zone k (TimeZone (Spec (object c))) = Inr now"
  shows "take 2 (issued c (snd (Reconcile k c))) =
           (if After (schedule now) now then [GetCall]
            else [GetCall, ListCall (selector_ignoring_error k (Selector (Spec (object c))))])"
  using assms
  by (auto simp: Reconcile_def client_Get_def client_List_def client_Status_Update_def Let_def
      issued_def calls_delete_pods split: sum.splits option.splits)

lemma Reconcile_part_000_first_requests:
  assumes "get_result k = None"
    and "parseCronSchedule k (Schedule (Spec (object c))) = Inr schedule"
    and "now_in_zone k (TimeZone (Spec (object c))) = Inr now"
  shows "take 2 (issued c (snd (Reconcile_part_000 k c))) =
           (if \<not> needsRestart (schedule now) now \<and> lastRestartTime c \<noteq> None then [GetCall]
            else [GetCall, StatusUpdateCall (Some now)])"
  using assms
  by (auto simp: Reconcile_part_000_def client_Get_def client_List_def client_Status_Update_def
      Let_def issued_def lastRestartTime_def calls_delete_pods split: sum.splits option.splits)

section \<open>When a restart is due\<close>

text \<open>
  The second version does what claim C1 says. Once the read, the parse and the time zone
  have succeeded, it goes on to list the pods exactly when \<open>nextRun\<close> is not after \<open>now\<close>
  or \<open>nextRun - now\<close> is under one minute, and the status update it issues first succeeds.
\<close>

lemma Reconcile_part_000_restarts_iff:
  assumes "get_result k = None"
    and "parseCronSchedule k (Schedule (Spec (object c))) = Inr schedule"
    and "now_in_zone k (TimeZone (Spec (object c))) = Inr now"
  shows "restarted c (Reconcile_part_000 k c) \<longleftrightarrow>
           (\<not> After (schedule now) now \<or> Sub (schedule now) now < Minute) \<and>
           update_result k = None"
  using assms
  by (auto simp: Reconcile_part_000_def client_Get_def client_List_def client_Status_Update_def
      Let_def restarted_def issued_def needsRestart_def calls_delete_pods
      split: sum.splits option.splits)

text \<open>
  The decision itself shows before the outcome of that update: on a resource whose status
  is already set, the second version issues a status update exactly when the condition of
  the claim holds.
\<close>

lemma Reconcile_part_000_decision_observed:
  assumes "get_result k = None"
    and "parseCronSchedule k (Schedule (Spec (object c))) = Inr schedule"
    and "now_in_zone k (TimeZone (Spec (object c))) = Inr now"
    and "lastRestartTime c \<noteq> None"
  shows "take 2 (issued c (snd (Reconcile_part_000 k c))) = [GetCall, StatusUpdateCall (Some now)] \<longleftrightarrow>
           \<not> After (schedule now) now \<or> Sub (schedule now) now < Minute"
  using Reconcile_part_000_first_requests [OF assms(1-3)] assms(4)
  by (auto simp: needsRestart_def)

text \<open>
  The version in \<open>autorestartpod_controller.go\<close> returns whenever the next run is after
  \<open>now\<close>, having issued the read alone.
\<close>

lemma Reconcile_returns_before_next_run:
  assumes "get_result k = None"
    and "parseCronSchedule k (Schedule (Spec (object c))) = Inr schedule"
    and "now_in_zone k (TimeZone (Spec (object c))) = Inr now"
    and "After (schedule now) now"
  shows "Reconcile k c = (Inr \<lparr>RequeueAfter = Sub (schedule now) now\<rparr>, c\<lparr>calls := calls c @ [GetCall]\<rparr>)"
  using assms
  by (simp add: Reconcile_def client_Get_def Let_def)

text \<open>
  Claim C1 on \<open>autorestartpod_controller.go\<close>. At 12:04:30 with the schedule
  \<open>*/5 * * * *\<close> the next run, 12:05:00, is thirty seconds ahead, which is under one
  minute: by the claim a restart is due. That version issues the read alone and returns,
  asking to be woken in thirty seconds; on the same input the second version writes the
  status, lists the pods and deletes them.
\<close>

theorem Reconcile_misses_tolerance:
  "parseCronSchedule (example_collaborators 270) (Schedule (Spec (object example_cluster))) =
     Inr every_5_minutes \<and>
   now_in_zone (example_collaborators 270) (TimeZone (Spec (object example_cluster))) =
     Inr \<lparr>instant = noon + seconds 270, location = ''Asia/Shanghai''\<rparr> \<and>
   every_5_minutes \<lparr>instant = noon + seconds 270, location = ''Asia/Shanghai''\<rparr> =
     \<lparr>instant = noon + seconds 300, location = ''Asia/Shanghai''\<rparr> \<and>
   Sub \<lparr>instant = noon + seconds 300, location = ''Asia/Shanghai''\<rparr>
       \<lparr>instant = noon + seconds 270, location = ''Asia/Shanghai''\<rparr> = seconds 30 \<and>
   seconds 30 < Minute \<and>
   Reconcile (example_collaborators 270) example_cluster =
     (Inr \<lparr>RequeueAfter = seconds 30\<rparr>, example_cluster\<lparr>calls := [GetCall]\<rparr>) \<and>
   issued example_cluster (snd (Reconcile_part_000 (example_collaborators 270) example_cluster)) =
     [GetCall,
      StatusUpdateCall (Some \<lparr>instant = noon + seconds 270, location = ''Asia/Shanghai''\<rparr>),
      ListCall (Some ''app=nginx''),
      DeleteCall ''nginx-0'', DeleteCall ''nginx-1'', DeleteCall ''nginx-2'']"
  by (simp add: model_defs property_defs example_defs schedule_defs)

section \<open>The requeue duration\<close>

text \<open>
  Claim C2, as amended. Take a run in which the read, the parse and the time zone succeed
  and \<open>schedule now\<close> is strictly after \<open>now\<close>. Whenever either version of \<open>Reconcile\<close>
  returns a result, its \<open>RequeueAfter\<close> is \<open>nextRun - now\<close> and is strictly positive. For
  the second version this includes the path that has just restarted the pods (taken when
  \<open>nextRun - now\<close> is under a minute).
\<close>

theorem requeue_positive:
  assumes "get_result k = None"
    and "parseCronSchedule k (Schedule (Spec (object c))) = Inr schedule"
    and "now_in_zone k (TimeZone (Spec (object c))) = Inr now"
    and "After (schedule now) now"
  shows "(\<forall>r. fst (Reconcile_part_000 k c) = Inr r \<longrightarrow>
            RequeueAfter r = Sub (schedule now) now \<and> 0 < RequeueAfter r) \<and>
         (\<forall>r. fst (Reconcile k c) = Inr r \<longrightarrow>
            RequeueAfter r = Sub (schedule now) now \<and> 0 < RequeueAfter r)"
proof -
  have pos: "0 < Sub (schedule now) now"
    using assms(4) by (simp add: After_iff_Sub_pos)
  have part_000: "RequeueAfter r = Sub (schedule now) now"
    if "fst (Reconcile_part_000 k c) = Inr r" for r
    using assms(1-3) that
    by (auto simp: Reconcile_part_000_def client_Get_def client_List_def client_Status_Update_def
        Let_def split: sum.splits option.splits if_splits)
  have controller: "RequeueAfter r = Sub (schedule now) now"
    if "fst (Reconcile k c) = Inr r" for r
    using assms that
    by (auto simp: Reconcile_def client_Get_def Let_def)
  from pos part_000 controller show ?thesis
    by simp
qed

text \<open>
  At 12:04:30 the second version restarts the pods and asks to be woken in thirty seconds.
\<close>

theorem requeue_positive_witness:
  "get_result (example_collaborators 270) = None \<and>
   parseCronSchedule (example_collaborators 270) (Schedule (Spec (object example_cluster))) =
     Inr every_5_minutes \<and>
   now_in_zone (example_collaborators 270) (TimeZone (Spec (object example_cluster))) =
     Inr \<lparr>instant = noon + seconds 270, location = ''Asia/Shanghai''\<rparr> \<and>
   After (every_5_minutes \<lparr>instant = noon + seconds 270, location = ''Asia/Shanghai''\<rparr>)
     \<lparr>instant = noon + seconds 270, location = ''Asia/Shanghai''\<rparr> \<and>
   restarted example_cluster (Reconcile_part_000 (example_collaborators 270) example_cluster) \<and>
   fst (Reconcile_part_000 (example_collaborators 270) example_cluster) =
     Inr \<lparr>RequeueAfter = seconds 30\<rparr> \<and>
   fst (Reconcile (example_collaborators 270) example_cluster) =
     Inr \<lparr>RequeueAfter = seconds 30\<rparr> \<and>
   0 < seconds 30"
  using requeue_positive
          [where k = "example_collaborators 270" and c = example_cluster
             and schedule = every_5_minutes
             and now = "\<lparr>instant = noon + seconds 270, location = ''Asia/Shanghai''\<rparr>"]
  by (simp add: model_defs property_defs example_defs schedule_defs)

text \<open>
  The claim as stated fails when the schedule's \<open>Next\<close> is not after \<open>now\<close>, the case the
  condition \<open>!nextRun.After(now)\<close> of both versions is written for. With a schedule that
  never fires, \<open>Next\<close> is the zero \<open>Time\<close>: both versions restart the pods and return
  successfully with the smallest duration, which is negative.
\<close>

theorem requeue_positive_counterexample:
  "parseCronSchedule (example_collaborators 60) ''0 0 31 2 *'' = Inr never_fires \<and>
   restarted (with_schedule ''0 0 31 2 *'' example_cluster)
     (Reconcile_part_000 (example_collaborators 60) (with_schedule ''0 0 31 2 *'' example_cluster)) \<and>
   fst (Reconcile_part_000 (example_collaborators 60) (with_schedule ''0 0 31 2 *'' example_cluster)) =
     Inr \<lparr>RequeueAfter = - 9223372036854775808\<rparr> \<and>
   restarted (with_schedule ''0 0 31 2 *'' example_cluster)
     (Reconcile (example_collaborators 60) (with_schedule ''0 0 31 2 *'' example_cluster)) \<and>
   fst (Reconcile (example_collaborators 60) (with_schedule ''0 0 31 2 *'' example_cluster)) =
     Inr \<lparr>RequeueAfter = - 9223372036854775808\<rparr>"
  by (simp add: model_defs property_defs example_defs schedule_defs)

section \<open>Initialising the status\<close>

text \<open>
  The second version does what claim C3 says. When no restart is due and
  \<open>status.lastRestartTime\<close> is unset, it writes \<open>now\<close> there and issues no other request
  than that update; and no run of it that returns a result leaves the field unset.
\<close>

lemma Reconcile_part_000_initializes_status:
  assumes "get_result k = None"
    and "parseCronSchedule k (Schedule (Spec (object c))) = Inr schedule"
    and "now_in_zone k (TimeZone (Spec (object c))) = Inr now"
    and "\<not> needsRestart (schedule now) now"
    and "lastRestartTime c = None"
    and "update_result k = None"
  shows "Reconcile_part_000 k c =
           (Inr \<lparr>RequeueAfter = Sub (schedule now) now\<rparr>,
            c\<lparr>object := (object c)\<lparr>Status := \<lparr>LastRestartTime = Some now\<rparr>\<rparr>,
              calls := calls c @ [GetCall, StatusUpdateCall (Some now)]\<rparr>)"
  using assms
  by (simp add: Reconcile_part_000_def client_Get_def client_Status_Update_def Let_def
      lastRestartTime_def)

lemma Reconcile_part_000_success_sets_status:
  assumes "fst (Reconcile_part_000 k c) = Inr r"
  shows "lastRestartTime (snd (Reconcile_part_000 k c)) \<noteq> None"
  using assms
  by (auto simp: Reconcile_part_000_def client_Get_def client_List_def client_Status_Update_def
      Let_def lastRestartTime_def object_delete_pods split: sum.splits option.splits if_splits)

text \<open>
  Claim C3 on \<open>autorestartpod_controller.go\<close>. At 12:01:00 with the schedule
  \<open>*/5 * * * *\<close> no restart is due and \<open>status.lastRestartTime\<close> is unset. That version
  returns at once, asking to be woken in four minutes: it issues no status update, and the
  field is still unset after the completed reconciliation.
\<close>

theorem Reconcile_leaves_status_unset:
  "lastRestartTime example_cluster = None \<and>
   Reconcile (example_collaborators 60) example_cluster =
     (Inr \<lparr>RequeueAfter = seconds 240\<rparr>, example_cluster\<lparr>calls := [GetCall]\<rparr>) \<and>
   lastRestartTime (snd (Reconcile (example_collaborators 60) example_cluster)) = None"
  by (simp add: model_defs property_defs example_defs schedule_defs)

section \<open>A listing that fails\<close>

text \<open>
  Claim C4, as amended. Take a run in which the read, the parse and the time zone succeed
  and the listing fails with error \<open>e\<close>. In \<open>autorestartpod_controller.go\<close>, when a restart
  is due, \<open>Reconcile\<close> returns \<open>e\<close> having issued the read and the listing only: no delete,
  no status update, the stored resource and the pods as before. In the second version,
  when a restart is due and the status update succeeds, \<open>Reconcile\<close> returns an error
  (\<open>e\<close> itself when the selector compiled) and issues no delete, but the status update
  that sets \<open>lastRestartTime = now\<close> has already been committed before the listing.
\<close>

theorem list_failure_aborts:
  assumes "get_result k = None"
    and "parseCronSchedule k (Schedule (Spec (object c))) = Inr schedule"
    and "now_in_zone k (TimeZone (Spec (object c))) = Inr now"
    and "list_result k (selector_ignoring_error k (Selector (Spec (object c)))) = Inl e"
  shows "(\<not> After (schedule now) now \<longrightarrow>
            Reconcile k c =
              (Inl e,
               c\<lparr>calls := calls c @
                    [GetCall, ListCall (selector_ignoring_error k (Selector (Spec (object c))))]\<rparr>)) \<and>
         (needsRestart (schedule now) now \<and> update_result k = None \<longrightarrow>
            isl (fst (Reconcile_part_000 k c)) \<and>
            (\<forall>s. LabelSelectorAsSelector k (Selector (Spec (object c))) = Inr s \<longrightarrow>
                 fst (Reconcile_part_000 k c) = Inl e) \<and>
            snd (Reconcile_part_000 k c) =
              c\<lparr>object := (object c)\<lparr>Status := \<lparr>LastRestartTime = Some now\<rparr>\<rparr>,
                calls := calls c @
                  [GetCall, StatusUpdateCall (Some now),
                   ListCall (selector_ignoring_error k (Selector (Spec (object c))))]\<rparr>)"
proof -
  have controller: "Reconcile k c =
      (Inl e, c\<lparr>calls := calls c @
                 [GetCall, ListCall (selector_ignoring_error k (Selector (Spec (object c))))]\<rparr>)"
    if "\<not> After (schedule now) now"
    using assms that
    by (simp add: Reconcile_def client_Get_def client_List_def Let_def)
  have part_000: "Reconcile_part_000 k c =
      (Inl (case selector_ignoring_error k (Selector (Spec (object c))) of
              None \<Rightarrow> NilSelectorPanic | Some _ \<Rightarrow> e),
       c\<lparr>object := (object c)\<lparr>Status := \<lparr>LastRestartTime = Some now\<rparr>\<rparr>,
         calls := calls c @
           [GetCall, StatusUpdateCall (Some now),
            ListCall (selector_ignoring_error k (Selector (Spec (object c))))]\<rparr>)"
    if "needsRestart (schedule now) now" and "update_result k = None"
    using assms that
    by (simp add: Reconcile_part_000_def client_Get_def client_List_def client_Status_Update_def
        Let_def split: option.splits)
  show ?thesis
    using controller part_000
    by (auto simp: selector_ignoring_error_def)
qed

text \<open>
  With a schedule that never fires both versions reach the listing; it fails, and only the
  second version has written the status by then.
\<close>

theorem list_failure_aborts_witness:
  "get_result (list_fails (example_collaborators 60)) = None \<and>
   parseCronSchedule (list_fails (example_collaborators 60))
     (Schedule (Spec (object (with_schedule ''0 0 31 2 *'' example_cluster)))) = Inr never_fires \<and>
   now_in_zone (list_fails (example_collaborators 60))
     (TimeZone (Spec (object (with_schedule ''0 0 31 2 *'' example_cluster)))) =
     Inr \<lparr>instant = noon + seconds 60, location = ''Asia/Shanghai''\<rparr> \<and>
   list_result (list_fails (example_collaborators 60)) (Some ''app=nginx'') = Inl (Err ''list failed'') \<and>
   \<not> After (never_fires \<lparr>instant = noon + seconds 60, location = ''Asia/Shanghai''\<rparr>)
       \<lparr>instant = noon + seconds 60, location = ''Asia/Shanghai''\<rparr> \<and>
   needsRestart (never_fires \<lparr>instant = noon + seconds 60, location = ''Asia/Shanghai''\<rparr>)
       \<lparr>instant = noon + seconds 60, location = ''Asia/Shanghai''\<rparr> \<and>
   update_result (list_fails (example_collaborators 60)) = None \<and>
   Reconcile (list_fails (example_collaborators 60)) (with_schedule ''0 0 31 2 *'' example_cluster) =
     (Inl (Err ''list failed''),
      (with_schedule ''0 0 31 2 *'' example_cluster)\<lparr>calls := [GetCall, ListCall (Some ''app=nginx'')]\<rparr>) \<and>
   Reconcile_part_000 (list_fails (example_collaborators 60)) (with_schedule ''0 0 31 2 *'' example_cluster) =
     (Inl (Err ''list failed''),
      (with_status (Some \<lparr>instant = noon + seconds 60, location = ''Asia/Shanghai''\<rparr>)
         (with_schedule ''0 0 31 2 *'' example_cluster))
        \<lparr>calls := [GetCall,
                   StatusUpdateCall (Some \<lparr>instant = noon + seconds 60, location = ''Asia/Shanghai''\<rparr>),
                   ListCall (Some ''app=nginx'')]\<rparr>)"
  using list_failure_aborts
          [where k = "list_fails (example_collaborators 60)"
             and c = "with_schedule ''0 0 31 2 *'' example_cluster"
             and schedule = never_fires
             and now = "\<lparr>instant = noon + seconds 60, location = ''Asia/Shanghai''\<rparr>"
             and e = "Err ''list failed''"]
  by (simp add: model_defs property_defs example_defs schedule_defs)

text \<open>
  The claim as stated fails on the second version: at 12:04:30 a restart is due, the
  listing fails, and the run ends with the listing error after the status update has
  changed \<open>lastRestartTime\<close> from unset to \<open>now\<close>.
\<close>

theorem list_failure_aborts_counterexample:
  "lastRestartTime example_cluster = None \<and>
   fst (Reconcile_part_000 (list_fails (example_collaborators 270)) example_cluster) =
     Inl (Err ''list failed'') \<and>
   issued example_cluster (snd (Reconcile_part_000 (list_fails (example_collaborators 270)) example_cluster)) =
     [GetCall,
      StatusUpdateCall (Some \<lparr>instant = noon + seconds 270, location = ''Asia/Shanghai''\<rparr>),
      ListCall (Some ''app=nginx'')] \<and>
   lastRestartTime (snd (Reconcile_part_000 (list_fails (example_collaborators 270)) example_cluster)) =
     Some \<lparr>instant = noon + seconds 270, location = ''Asia/Shanghai''\<rparr>"
  by (simp add: model_defs property_defs example_defs schedule_defs)

text \<open>
  In the second version a failed listing with the nil selector does not return the listing
  error: logging \<open>selector.String()\<close> panics.
\<close>

lemma Reconcile_part_000_nil_selector_panics:
  assumes "get_result k = None"
    and "parseCronSchedule k (Schedule (Spec (object c))) = Inr schedule"
    and "now_in_zone k (TimeZone (Spec (object c))) = Inr now"
    and "needsRestart (schedule now) now"
    and "update_result k = None"
    and "LabelSelectorAsSelector k (Selector (Spec (object c))) = Inl e"
    and "list_result k None = Inl e'"
  shows "fst (Reconcile_part_000 k c) = Inl NilSelectorPanic"
  using assms
  by (simp add: Reconcile_part_000_def client_Get_def client_List_def client_Status_Update_def
      selector_ignoring_error_def Let_def)

section \<open>The restart path\<close>

text \<open>
  What each version does once a restart is due and the listing and the status update
  succeed: the result, the requests in their order, the stored status and the pods that
  are left.
\<close>

lemma Reconcile_restarts:
  assumes "get_result k = None"
    and "parseCronSchedule k (Schedule (Spec (object c))) = Inr schedule"
    and "now_in_zone k (TimeZone (Spec (object c))) = Inr now"
    and "list_result k (selector_ignoring_error k (Selector (Spec (object c)))) = Inr items"
    and "update_result k = None"
    and "\<not> After (schedule now) now"
  shows "fst (Reconcile k c) = Inr \<lparr>RequeueAfter = Sub (schedule now) (time_Now_until k)\<rparr>"
    and "issued c (snd (Reconcile k c)) =
           [GetCall, ListCall (selector_ignoring_error k (Selector (Spec (object c))))] @
           map DeleteCall items @ [StatusUpdateCall (Some now)]"
    and "lastRestartTime (snd (Reconcile k c)) = Some now"
    and "pods (snd (Reconcile k c)) =
           filter (\<lambda>p. \<not> (p \<in> set items \<and> delete_result k p = None)) (pods c)"
  using assms
  by (simp_all add: Reconcile_def client_Get_def client_List_def client_Status_Update_def Let_def
      issued_def lastRestartTime_def calls_delete_pods pods_delete_pods object_delete_pods)

lemma Reconcile_part_000_restarts:
  assumes "get_result k = None"
    and "parseCronSchedule k (Schedule (Spec (object c))) = Inr schedule"
    and "now_in_zone k (TimeZone (Spec (object c))) = Inr now"
    and "list_result k (selector_ignoring_error k (Selector (Spec (object c)))) = Inr items"
    and "update_result k = None"
    and "needsRestart (schedule now) now"
  shows "fst (Reconcile_part_000 k c) = Inr \<lparr>RequeueAfter = Sub (schedule now) now\<rparr>"
    and "issued c (snd (Reconcile_part_000 k c)) =
           [GetCall, StatusUpdateCall (Some now),
            ListCall (selector_ignoring_error k (Selector (Spec (object c))))] @
           map DeleteCall items"
    and "lastRestartTime (snd (Reconcile_part_000 k c)) = Some now"
    and "pods (snd (Reconcile_part_000 k c)) =
           filter (\<lambda>p. \<not> (p \<in> set items \<and> delete_result k p = None)) (pods c)"
  using assms
  by (simp_all add: Reconcile_part_000_def client_Get_def client_List_def client_Status_Update_def
      Let_def issued_def lastRestartTime_def calls_delete_pods pods_delete_pods object_delete_pods)

section \<open>A selector that does not compile\<close>

text \<open>
  Claim C5, as amended. A malformed label selector is never signaled as an error of its
  own: both versions drop the error of \<open>LabelSelectorAsSelector\<close> and go on with the nil
  selector. Take a run in which the read, the parse and the time zone succeed and the
  selector does not compile.
  \<^item> Second version, status update succeeding, no restart due: the run returns a result and
    lists nothing.
  \<^item> Second version, status update succeeding, restart due: \<open>lastRestartTime = now\<close> is
    committed first and the listing is then attempted with the nil selector; if that
    listing fails, the run ends in the panic on the nil selector with the status already
    written and no delete issued.
  \<^item> \<open>autorestartpod_controller.go\<close>, once its restart branch is reached: the listing with
    the nil selector is the first request after the read; if it fails, the run ends with
    the failure of the listing, with no delete and no status update.
\<close>

theorem malformed_selector_not_signaled:
  assumes "get_result k = None"
    and "parseCronSchedule k (Schedule (Spec (object c))) = Inr schedule"
    and "now_in_zone k (TimeZone (Spec (object c))) = Inr now"
    and "LabelSelectorAsSelector k (Selector (Spec (object c))) = Inl e"
  shows "(\<not> needsRestart (schedule now) now \<and> update_result k = None \<longrightarrow>
            fst (Reconcile_part_000 k c) = Inr \<lparr>RequeueAfter = Sub (schedule now) now\<rparr> \<and>
            \<not> restarted c (Reconcile_part_000 k c)) \<and>
         (needsRestart (schedule now) now \<and> update_result k = None \<longrightarrow>
            take 3 (issued c (snd (Reconcile_part_000 k c))) =
              [GetCall, StatusUpdateCall (Some now), ListCall None] \<and>
            lastRestartTime (snd (Reconcile_part_000 k c)) = Some now \<and>
            (\<forall>e'. list_result k None = Inl e' \<longrightarrow>
               Reconcile_part_000 k c =
                 (Inl NilSelectorPanic,
                  c\<lparr>object := (object c)\<lparr>Status := \<lparr>LastRestartTime = Some now\<rparr>\<rparr>,
                    calls := calls c @ [GetCall, StatusUpdateCall (Some now), ListCall None]\<rparr>))) \<and>
         (\<not> After (schedule now) now \<longrightarrow>
            take 2 (issued c (snd (Reconcile k c))) = [GetCall, ListCall None] \<and>
            (\<forall>e'. list_result k None = Inl e' \<longrightarrow>
               Reconcile k c = (Inl e', c\<lparr>calls := calls c @ [GetCall, ListCall None]\<rparr>)))"
proof -
  have nil: "selector_ignoring_error k (Selector (Spec (object c))) = None"
    using assms(4) by (simp add: selector_ignoring_error_def)
  have idle: "fst (Reconcile_part_000 k c) = Inr \<lparr>RequeueAfter = Sub (schedule now) now\<rparr> \<and>
      \<not> restarted c (Reconcile_part_000 k c)"
    if "\<not> needsRestart (schedule now) now" and "update_result k = None"
    using assms(1-3) that
    by (auto simp: Reconcile_part_000_def client_Get_def client_Status_Update_def Let_def
        restarted_def issued_def)
  have due: "take 3 (issued c (snd (Reconcile_part_000 k c))) =
        [GetCall, StatusUpdateCall (Some now), ListCall None] \<and>
      lastRestartTime (snd (Reconcile_part_000 k c)) = Some now"
    if "needsRestart (schedule now) now" and "update_result k = None"
    using assms(1-3) nil that
    by (auto simp: Reconcile_part_000_def client_Get_def client_List_def client_Status_Update_def
        Let_def issued_def lastRestartTime_def calls_delete_pods object_delete_pods
        split: sum.splits)
  have panics: "Reconcile_part_000 k c =
      (Inl NilSelectorPanic,
       c\<lparr>object := (object c)\<lparr>Status := \<lparr>LastRestartTime = Some now\<rparr>\<rparr>,
         calls := calls c @ [GetCall, StatusUpdateCall (Some now), ListCall None]\<rparr>)"
    if "needsRestart (schedule now) now" and "update_result k = None" and "list_result k None = Inl e'"
    for e'
    using assms(1-3) nil that
    by (simp add: Reconcile_part_000_def client_Get_def client_List_def client_Status_Update_def
        Let_def)
  have main_first: "take 2 (issued c (snd (Reconcile k c))) = [GetCall, ListCall None]"
    if "\<not> After (schedule now) now"
    using Reconcile_first_requests [OF assms(1-3)] nil that by simp
  have main_fails: "Reconcile k c = (Inl e', c\<lparr>calls := calls c @ [GetCall, ListCall None]\<rparr>)"
    if "\<not> After (schedule now) now" and "list_result k None = Inl e'" for e'
    using assms(1-3) nil that
    by (simp add: Reconcile_def client_Get_def client_List_def Let_def)
  show ?thesis
    using idle due panics main_first main_fails by blast
qed

text \<open>
  A selector with the operator \<open>Equals\<close> does not compile. The second version at 12:01:00
  returns a result; at 12:04:30 it writes the status and then fails in the listing. The
  first version, with a schedule that never fires, fails in the listing before any write.
\<close>

theorem malformed_selector_not_signaled_witness:
  "get_result (example_collaborators 60) = None \<and>
   parseCronSchedule (example_collaborators 60)
     (Schedule (Spec (object (with_selector malformed_selector example_cluster)))) = Inr every_5_minutes \<and>
   now_in_zone (example_collaborators 60)
     (TimeZone (Spec (object (with_selector malformed_selector example_cluster)))) =
     Inr \<lparr>instant = noon + seconds 60, location = ''Asia/Shanghai''\<rparr> \<and>
   LabelSelectorAsSelector (example_collaborators 60)
     (Selector (Spec (object (with_selector malformed_selector example_cluster)))) =
     Inl (Err ''not a valid label selector operator'') \<and>
   update_result (example_collaborators 60) = None \<and>
   \<not> needsRestart (every_5_minutes \<lparr>instant = noon + seconds 60, location = ''Asia/Shanghai''\<rparr>)
       \<lparr>instant = noon + seconds 60, location = ''Asia/Shanghai''\<rparr> \<and>
   fst (Reconcile_part_000 (example_collaborators 60) (with_selector malformed_selector example_cluster)) =
     Inr \<lparr>RequeueAfter = seconds 240\<rparr> \<and>
   needsRestart (every_5_minutes \<lparr>instant = noon + seconds 270, location = ''Asia/Shanghai''\<rparr>)
       \<lparr>instant = noon + seconds 270, location = ''Asia/Shanghai''\<rparr> \<and>
   list_result (example_collaborators 270) None = Inl NilSelectorPanic \<and>
   Reconcile_part_000 (example_collaborators 270) (with_selector malformed_selector example_cluster) =
     (Inl NilSelectorPanic,
      (with_status (Some \<lparr>instant = noon + seconds 270, location = ''Asia/Shanghai''\<rparr>)
         (with_selector malformed_selector example_cluster))
        \<lparr>calls := [GetCall,
                   StatusUpdateCall (Some \<lparr>instant = noon + seconds 270, location = ''Asia/Shanghai''\<rparr>),
                   ListCall None]\<rparr>) \<and>
   \<not> After (never_fires \<lparr>instant = noon + seconds 60, location = ''Asia/Shanghai''\<rparr>)
       \<lparr>instant = noon + seconds 60, location = ''Asia/Shanghai''\<rparr> \<and>
   Reconcile (example_collaborators 60)
     (with_selector malformed_selector (with_schedule ''0 0 31 2 *'' example_cluster)) =
     (Inl NilSelectorPanic,
      (with_selector malformed_selector (with_schedule ''0 0 31 2 *'' example_cluster))
        \<lparr>calls := [GetCall, ListCall None]\<rparr>)"
  using malformed_selector_not_signaled
          [where k = "example_collaborators 60"
             and c = "with_selector malformed_selector example_cluster"
             and schedule = every_5_minutes
             and now = "\<lparr>instant = noon + seconds 60, location = ''Asia/Shanghai''\<rparr>"
             and e = "Err ''not a valid label selector operator''"]
        malformed_selector_not_signaled
          [where k = "example_collaborators 270"
             and c = "with_selector malformed_selector example_cluster"
             and schedule = every_5_minutes
             and now = "\<lparr>instant = noon + seconds 270, location = ''Asia/Shanghai''\<rparr>"
             and e = "Err ''not a valid label selector operator''"]
        malformed_selector_not_signaled
          [where k = "example_collaborators 60"
             and c = "with_selector malformed_selector (with_schedule ''0 0 31 2 *'' example_cluster)"
             and schedule = never_fires
             and now = "\<lparr>instant = noon + seconds 60, location = ''Asia/Shanghai''\<rparr>"
             and e = "Err ''not a valid label selector operator''"]
  by (simp add: model_defs property_defs example_defs schedule_defs)

text \<open>
  The claim as stated fails on the second version, whatever the listing does with a nil
  selector. At 12:01:00 the run with the malformed selector returns a result, no error,
  and has changed \<open>lastRestartTime\<close> from unset to \<open>now\<close>. At 12:04:30 the status update
  is issued and committed before the listing with the nil selector is attempted.
\<close>

theorem malformed_selector_not_signaled_counterexample:
  "LabelSelectorAsSelector (example_collaborators 60) malformed_selector =
     Inl (Err ''not a valid label selector operator'') \<and>
   lastRestartTime (with_selector malformed_selector example_cluster) = None \<and>
   Reconcile_part_000 (example_collaborators 60) (with_selector malformed_selector example_cluster) =
     (Inr \<lparr>RequeueAfter = seconds 240\<rparr>,
      (with_status (Some \<lparr>instant = noon + seconds 60, location = ''Asia/Shanghai''\<rparr>)
         (with_selector malformed_selector example_cluster))
        \<lparr>calls := [GetCall,
                   StatusUpdateCall (Some \<lparr>instant = noon + seconds 60, location = ''Asia/Shanghai''\<rparr>)]\<rparr>) \<and>
   take 3 (issued (with_selector malformed_selector example_cluster)
     (snd (Reconcile_part_000 (example_collaborators 270)
        (with_selector malformed_selector example_cluster)))) =
     [GetCall,
      StatusUpdateCall (Some \<lparr>instant = noon + seconds 270, location = ''Asia/Shanghai''\<rparr>),
      ListCall None] \<and>
   lastRestartTime
     (snd (Reconcile_part_000 (example_collaborators 270)
        (with_selector malformed_selector example_cluster))) =
     Some \<lparr>instant = noon + seconds 270, location = ''Asia/Shanghai''\<rparr>"
  by (simp add: model_defs property_defs example_defs schedule_defs)

section \<open>Deletes that fail\<close>

text \<open>
  Claim C8. Take a run in which a restart is due and the read, the parse, the time zone,
  the listing and the status update succeed, and let the deletes succeed or fail in any
  way. Either version sends exactly one delete to every listed pod, in the order of the
  list, writes \<open>lastRestartTime = now\<close> and returns a result. The pods that are left are
  those that were not listed and those whose delete failed.
\<close>

theorem delete_failures_tolerated:
  assumes "get_result k = None"
    and "parseCronSchedule k (Schedule (Spec (object c))) = Inr schedule"
    and "now_in_zone k (TimeZone (Spec (object c))) = Inr now"
    and "list_result k (selector_ignoring_error k (Selector (Spec (object c)))) = Inr items"
    and "update_result k = None"
  shows "(\<not> After (schedule now) now \<longrightarrow>
            fst (Reconcile k c) = Inr \<lparr>RequeueAfter = Sub (schedule now) (time_Now_until k)\<rparr> \<and>
            filter is_DeleteCall (issued c (snd (Reconcile k c))) = map DeleteCall items \<and>
            lastRestartTime (snd (Reconcile k c)) = Some now \<and>
            pods (snd (Reconcile k c)) =
              filter (\<lambda>p. \<not> (p \<in> set items \<and> delete_result k p = None)) (pods c)) \<and>
         (needsRestart (schedule now) now \<longrightarrow>
            fst (Reconcile_part_000 k c) = Inr \<lparr>RequeueAfter = Sub (schedule now) now\<rparr> \<and>
            filter is_DeleteCall (issued c (snd (Reconcile_part_000 k c))) = map DeleteCall items \<and>
            lastRestartTime (snd (Reconcile_part_000 k c)) = Some now \<and>
            pods (snd (Reconcile_part_000 k c)) =
              filter (\<lambda>p. \<not> (p \<in> set items \<and> delete_result k p = None)) (pods c))"
proof -
  have deletes: "filter is_DeleteCall (map DeleteCall items) = map DeleteCall items"
    by (induction items) simp_all
  show ?thesis
    using Reconcile_restarts [OF assms] Reconcile_part_000_restarts [OF assms] deletes
    by simp
qed

text \<open>
  Three pods are listed and the delete of \<open>nginx-1\<close> is refused: the other two are
  deleted, the status is written and the run succeeds, in the second version at 12:04:30
  and in the first with a schedule that never fires.
\<close>

theorem delete_failures_tolerated_witness:
  "get_result (example_collaborators 270) = None \<and>
   parseCronSchedule (example_collaborators 270) (Schedule (Spec (object example_cluster))) =
     Inr every_5_minutes \<and>
   now_in_zone (example_collaborators 270) (TimeZone (Spec (object example_cluster))) =
     Inr \<lparr>instant = noon + seconds 270, location = ''Asia/Shanghai''\<rparr> \<and>
   list_result (example_collaborators 270)
     (selector_ignoring_error (example_collaborators 270) (Selector (Spec (object example_cluster)))) =
     Inr [''nginx-0'', ''nginx-1'', ''nginx-2''] \<and>
   update_result (example_collaborators 270) = None \<and>
   delete_result (example_collaborators 270) ''nginx-1'' = Some (Err ''delete refused'') \<and>
   needsRestart (every_5_minutes \<lparr>instant = noon + seconds 270, location = ''Asia/Shanghai''\<rparr>)
       \<lparr>instant = noon + seconds 270, location = ''Asia/Shanghai''\<rparr> \<and>
   fst (Reconcile_part_000 (example_collaborators 270) example_cluster) =
     Inr \<lparr>RequeueAfter = seconds 30\<rparr> \<and>
   filter is_DeleteCall
     (issued example_cluster (snd (Reconcile_part_000 (example_collaborators 270) example_cluster))) =
     [DeleteCall ''nginx-0'', DeleteCall ''nginx-1'', DeleteCall ''nginx-2''] \<and>
   pods (snd (Reconcile_part_000 (example_collaborators 270) example_cluster)) = [''nginx-1'', ''db-0''] \<and>
   lastRestartTime (snd (Reconcile_part_000 (example_collaborators 270) example_cluster)) =
     Some \<lparr>instant = noon + seconds 270, location = ''Asia/Shanghai''\<rparr> \<and>
   \<not> After (never_fires \<lparr>instant = noon + seconds 270, location = ''Asia/Shanghai''\<rparr>)
       \<lparr>instant = noon + seconds 270, location = ''Asia/Shanghai''\<rparr> \<and>
   filter is_DeleteCall
     (issued (with_schedule ''0 0 31 2 *'' example_cluster)
        (snd (Reconcile (example_collaborators 270) (with_schedule ''0 0 31 2 *'' example_cluster)))) =
     [DeleteCall ''nginx-0'', DeleteCall ''nginx-1'', DeleteCall ''nginx-2''] \<and>
   pods (snd (Reconcile (example_collaborators 270) (with_schedule ''0 0 31 2 *'' example_cluster))) =
     [''nginx-1'', ''db-0''] \<and>
   lastRestartTime (snd (Reconcile (example_collaborators 270) (with_schedule ''0 0 31 2 *'' example_cluster))) =
     Some \<lparr>instant = noon + seconds 270, location = ''Asia/Shanghai''\<rparr>"
  using delete_failures_tolerated
          [where k = "example_collaborators 270" and c = example_cluster
             and schedule = every_5_minutes
             and now = "\<lparr>instant = noon + seconds 270, location = ''Asia/Shanghai''\<rparr>"
             and items = "[''nginx-0'', ''nginx-1'', ''nginx-2'']"]
        delete_failures_tolerated
          [where k = "example_collaborators 270" and c = "with_schedule ''0 0 31 2 *'' example_cluster"
             and schedule = never_fires
             and now = "\<lparr>instant = noon + seconds 270, location = ''Asia/Shanghai''\<rparr>"
             and items = "[''nginx-0'', ''nginx-1'', ''nginx-2'']"]
  by (simp add: model_defs property_defs example_defs schedule_defs)

section \<open>Retrying after a restart\<close>

text \<open>
  Neither version changes the spec of the resource, and neither reads anything but the
  spec and the collaborators to decide: two runs with the same collaborators on clusters
  whose resources have the same spec restart or not alike.
\<close>

lemma Spec_preserved:
  "Spec (object (snd (Reconcile k c))) = Spec (object c)"
  "Spec (object (snd (Reconcile_part_000 k c))) = Spec (object c)"
  by (auto simp: Reconcile_part_000_def Reconcile_def client_Get_def client_List_def
      client_Status_Update_def Let_def object_delete_pods split: sum.splits option.splits)

lemma restarted_depends_on_spec:
  assumes "Spec (object c') = Spec (object c)"
  shows "restarted c' (Reconcile_part_000 k c') = restarted c (Reconcile_part_000 k c)"
    and "restarted c' (Reconcile k c') = restarted c (Reconcile k c)"
  using assms
  by (auto simp: Reconcile_part_000_def Reconcile_def client_Get_def client_List_def
      client_Status_Update_def Let_def restarted_def issued_def calls_delete_pods
      split: sum.splits option.splits)

text \<open>
  Claim C7, as amended. The restart decision never reads \<open>status.lastRestartTime\<close>. With
  the same collaborators (schedule, clock reading, outcomes of the calls), a run of either
  version restarts exactly when the same run on any other stored status does; and run
  again on the cluster it has left behind, status committed or not, it restarts exactly
  when the first run did. For the second version, once the read, the parse and the time
  zone have succeeded, a run is a no-op (the read alone is issued, the cluster is as it
  was, the result is \<open>nextRun - now\<close>) if and only if no restart is due and
  \<open>lastRestartTime\<close> is set; the run after such a run is again a no-op with the same result.
\<close>

theorem restart_decision_ignores_status:
  assumes "get_result k = None"
    and "parseCronSchedule k (Schedule (Spec (object c))) = Inr schedule"
    and "now_in_zone k (TimeZone (Spec (object c))) = Inr now"
  shows "restarted (with_status st c) (Reconcile_part_000 k (with_status st c)) =
           restarted c (Reconcile_part_000 k c) \<and>
         restarted (with_status st c) (Reconcile k (with_status st c)) =
           restarted c (Reconcile k c) \<and>
         restarted (snd (Reconcile_part_000 k c)) (Reconcile_part_000 k (snd (Reconcile_part_000 k c))) =
           restarted c (Reconcile_part_000 k c) \<and>
         restarted (snd (Reconcile k c)) (Reconcile k (snd (Reconcile k c))) =
           restarted c (Reconcile k c) \<and>
         (Reconcile_part_000 k c =
            (Inr \<lparr>RequeueAfter = Sub (schedule now) now\<rparr>, c\<lparr>calls := calls c @ [GetCall]\<rparr>) \<longleftrightarrow>
          \<not> needsRestart (schedule now) now \<and> lastRestartTime c \<noteq> None) \<and>
         (\<not> needsRestart (schedule now) now \<and> lastRestartTime c \<noteq> None \<longrightarrow>
            Reconcile_part_000 k (snd (Reconcile_part_000 k c)) =
              (Inr \<lparr>RequeueAfter = Sub (schedule now) now\<rparr>,
               c\<lparr>calls := calls c @ [GetCall, GetCall]\<rparr>))"
proof -
  have noop: "Reconcile_part_000 k c' =
      (Inr \<lparr>RequeueAfter = Sub (schedule now) now\<rparr>, c'\<lparr>calls := calls c' @ [GetCall]\<rparr>)"
    if "object c' = object c" and "\<not> needsRestart (schedule now) now" and "lastRestartTime c \<noteq> None"
    for c'
    using assms that
    by (auto simp: Reconcile_part_000_def client_Get_def Let_def lastRestartTime_def)
  have only_then: "\<not> needsRestart (schedule now) now \<and> lastRestartTime c \<noteq> None"
    if "Reconcile_part_000 k c =
      (Inr \<lparr>RequeueAfter = Sub (schedule now) now\<rparr>, c\<lparr>calls := calls c @ [GetCall]\<rparr>)"
  proof -
    from that have "take 2 (issued c (snd (Reconcile_part_000 k c))) = [GetCall]"
      by simp
    with Reconcile_part_000_first_requests [OF assms] show ?thesis
      by (simp split: if_splits)
  qed
  have with_status: "Spec (object (with_status st c)) = Spec (object c)"
    by (simp add: with_status_def)
  show ?thesis
    using noop [of c] noop [of "c\<lparr>calls := calls c @ [GetCall]\<rparr>"] only_then
      restarted_depends_on_spec [OF with_status, of k]
      restarted_depends_on_spec [OF Spec_preserved(1) [of k c], of k]
      restarted_depends_on_spec [OF Spec_preserved(2) [of k c], of k]
    by auto
qed

text \<open>
  At 12:01:00, with a status already set, a run of the second version and its repetition
  are no-ops that ask to be woken in four minutes.
\<close>

theorem restart_decision_ignores_status_witness:
  "get_result (example_collaborators 60) = None \<and>
   parseCronSchedule (example_collaborators 60)
     (Schedule (Spec (object (with_status (Some \<lparr>instant = noon, location = ''Asia/Shanghai''\<rparr>)
        example_cluster)))) = Inr every_5_minutes \<and>
   now_in_zone (example_collaborators 60)
     (TimeZone (Spec (object (with_status (Some \<lparr>instant = noon, location = ''Asia/Shanghai''\<rparr>)
        example_cluster)))) = Inr \<lparr>instant = noon + seconds 60, location = ''Asia/Shanghai''\<rparr> \<and>
   \<not> needsRestart (every_5_minutes \<lparr>instant = noon + seconds 60, location = ''Asia/Shanghai''\<rparr>)
       \<lparr>instant = noon + seconds 60, location = ''Asia/Shanghai''\<rparr> \<and>
   lastRestartTime (with_status (Some \<lparr>instant = noon, location = ''Asia/Shanghai''\<rparr>) example_cluster) =
     Some \<lparr>instant = noon, location = ''Asia/Shanghai''\<rparr> \<and>
   Reconcile_part_000 (example_collaborators 60)
     (with_status (Some \<lparr>instant = noon, location = ''Asia/Shanghai''\<rparr>) example_cluster) =
     (Inr \<lparr>RequeueAfter = seconds 240\<rparr>,
      (with_status (Some \<lparr>instant = noon, location = ''Asia/Shanghai''\<rparr>) example_cluster)
        \<lparr>calls := [GetCall]\<rparr>) \<and>
   Reconcile_part_000 (example_collaborators 60)
     (snd (Reconcile_part_000 (example_collaborators 60)
        (with_status (Some \<lparr>instant = noon, location = ''Asia/Shanghai''\<rparr>) example_cluster))) =
     (Inr \<lparr>RequeueAfter = seconds 240\<rparr>,
      (with_status (Some \<lparr>instant = noon, location = ''Asia/Shanghai''\<rparr>) example_cluster)
        \<lparr>calls := [GetCall, GetCall]\<rparr>) \<and>
   \<not> restarted
       (with_status (Some \<lparr>instant = noon, location = ''Asia/Shanghai''\<rparr>) example_cluster)
       (Reconcile_part_000 (example_collaborators 60)
          (with_status (Some \<lparr>instant = noon, location = ''Asia/Shanghai''\<rparr>) example_cluster)) \<and>
   \<not> restarted example_cluster (Reconcile_part_000 (example_collaborators 60) example_cluster)"
  using restart_decision_ignores_status
          [where k = "example_collaborators 60"
             and c = "with_status (Some \<lparr>instant = noon, location = ''Asia/Shanghai''\<rparr>) example_cluster"
             and schedule = every_5_minutes
             and now = "\<lparr>instant = noon + seconds 60, location = ''Asia/Shanghai''\<rparr>"
             and st = None]
  by (simp add: model_defs property_defs example_defs schedule_defs)

text \<open>
  The claim as stated fails: at 12:04:30 the second version restarts the pods and commits
  \<open>lastRestartTime\<close>; run again one second later on the status it has just written, it
  restarts them again.
\<close>

theorem restart_decision_ignores_status_counterexample:
  "restarted example_cluster (Reconcile_part_000 (example_collaborators 270) example_cluster) \<and>
   lastRestartTime (snd (Reconcile_part_000 (example_collaborators 270) example_cluster)) =
     Some \<lparr>instant = noon + seconds 270, location = ''Asia/Shanghai''\<rparr> \<and>
   restarted (snd (Reconcile_part_000 (example_collaborators 270) example_cluster))
     (Reconcile_part_000 (example_collaborators 271)
        (snd (Reconcile_part_000 (example_collaborators 270) example_cluster)))"
  by (simp add: model_defs property_defs example_defs schedule_defs)

section \<open>The two versions compared\<close>

lemma versions_agree:
  assumes "versions_agree_on k c"
  shows "Reconcile k c = Reconcile_part_000 k c"
  using assms
  by (auto simp: Reconcile_part_000_def Reconcile_def client_Get_def Let_def versions_agree_on_def
      lastRestartTime_def needsRestart_def After_iff_Sub_pos Minute_def
      split: sum.splits option.splits)

text \<open>On every other run the first two requests tell the versions apart.\<close>

lemma versions_disagree:
  assumes "\<not> versions_agree_on k c"
  shows "take 2 (issued c (snd (Reconcile k c))) \<noteq> take 2 (issued c (snd (Reconcile_part_000 k c)))"
proof -
  from assms obtain schedule now where pre: "get_result k = None"
    "parseCronSchedule k (Schedule (Spec (object c))) = Inr schedule"
    "now_in_zone k (TimeZone (Spec (object c))) = Inr now"
    and not_idle: "\<not> (Minute \<le> Sub (schedule now) now \<and> lastRestartTime c \<noteq> None)"
    by (auto simp: versions_agree_on_def split: option.splits sum.splits)
  from not_idle have "\<not> (\<not> needsRestart (schedule now) now \<and> lastRestartTime c \<noteq> None)"
    by (auto simp: needsRestart_def)
  then show ?thesis
    using Reconcile_first_requests [OF pre] Reconcile_part_000_first_requests [OF pre]
    by (simp split: if_splits)
qed

text \<open>
  Claim C10, as amended. The two versions of \<open>Reconcile\<close> return the same result and leave
  the same cluster (the same requests in the same order included) exactly on the runs of
  \<open>versions_agree_on\<close>: when the read, the parse or the time zone fails, or when the next
  run is at least a minute ahead and \<open>status.lastRestartTime\<close> is already set. On every
  other run they differ.
\<close>

theorem versions_agree_iff:
  "Reconcile k c = Reconcile_part_000 k c \<longleftrightarrow> versions_agree_on k c"
proof
  assume same: "Reconcile k c = Reconcile_part_000 k c"
  show "versions_agree_on k c"
  proof (rule ccontr)
    assume "\<not> versions_agree_on k c"
    from versions_disagree [OF this] same show False
      by simp
  qed
next
  assume "versions_agree_on k c"
  then show "Reconcile k c = Reconcile_part_000 k c"
    by (rule versions_agree)
qed

text \<open>
  At 12:01:00 with a status already set, and with a schedule neither parser accepts, the
  two versions coincide.
\<close>

theorem versions_agree_iff_witness:
  "versions_agree_on (example_collaborators 60)
     (with_status (Some \<lparr>instant = noon, location = ''Asia/Shanghai''\<rparr>) example_cluster) \<and>
   Reconcile (example_collaborators 60)
     (with_status (Some \<lparr>instant = noon, location = ''Asia/Shanghai''\<rparr>) example_cluster) =
   Reconcile_part_000 (example_collaborators 60)
     (with_status (Some \<lparr>instant = noon, location = ''Asia/Shanghai''\<rparr>) example_cluster) \<and>
   versions_agree_on (example_collaborators 60) (with_schedule ''not-a-cron'' example_cluster) \<and>
   Reconcile (example_collaborators 60) (with_schedule ''not-a-cron'' example_cluster) =
   Reconcile_part_000 (example_collaborators 60) (with_schedule ''not-a-cron'' example_cluster)"
  using versions_agree_iff
          [of "example_collaborators 60"
              "with_status (Some \<lparr>instant = noon, location = ''Asia/Shanghai''\<rparr>) example_cluster"]
        versions_agree_iff
          [of "example_collaborators 60" "with_schedule ''not-a-cron'' example_cluster"]
  by (simp add: versions_agree_on_def model_defs property_defs example_defs schedule_defs)

text \<open>
  The claim as stated fails: at 12:04:30 the first version only reads the resource, while
  the second writes the status, lists the pods and deletes them.
\<close>

theorem versions_agree_iff_counterexample:
  "issued example_cluster (snd (Reconcile (example_collaborators 270) example_cluster)) = [GetCall] \<and>
   issued example_cluster (snd (Reconcile_part_000 (example_collaborators 270) example_cluster)) =
     [GetCall,
      StatusUpdateCall (Some \<lparr>instant = noon + seconds 270, location = ''Asia/Shanghai''\<rparr>),
      ListCall (Some ''app=nginx''),
      DeleteCall ''nginx-0'', DeleteCall ''nginx-1'', DeleteCall ''nginx-2''] \<and>
   Reconcile (example_collaborators 270) example_cluster \<noteq>
     Reconcile_part_000 (example_collaborators 270) example_cluster"
  by (simp add: model_defs property_defs example_defs schedule_defs)

section \<open>The history of the status\<close>

text \<open>
  \<open>now\<close> is the clock reading, moved to the time zone of the resource: the same instant.
\<close>

lemma now_in_zone_instant:
  assumes "now_in_zone k tz = Inr now"
  shows "instant now = instant (time_Now k)"
  using assms
  by (auto simp: now_in_zone_def In_def split: if_splits sum.splits)

text \<open>
  A run of either version leaves \<open>status.lastRestartTime\<close> as it was or sets it to the
  instant of its clock reading.
\<close>

lemma Reconcile_writes_now:
  "lastRestartTime (snd (Reconcile k c)) = lastRestartTime c \<or>
   (\<exists>t. lastRestartTime (snd (Reconcile k c)) = Some t \<and> instant t = instant (time_Now k))"
  by (auto simp: Reconcile_def client_Get_def client_List_def client_Status_Update_def Let_def
      lastRestartTime_def object_delete_pods now_in_zone_instant split: sum.splits option.splits)

lemma Reconcile_part_000_writes_now:
  "lastRestartTime (snd (Reconcile_part_000 k c)) = lastRestartTime c \<or>
   (\<exists>t. lastRestartTime (snd (Reconcile_part_000 k c)) = Some t \<and> instant t = instant (time_Now k))"
  by (auto simp: Reconcile_part_000_def client_Get_def client_List_def client_Status_Update_def
      Let_def lastRestartTime_def object_delete_pods now_in_zone_instant
      split: sum.splits option.splits)

lemma not_later_refl: "not_later x x"
  by (cases x) simp_all

lemma not_later_same_instant:
  "instant t = instant u \<Longrightarrow> not_later x (Some t) = not_later x (Some u)"
  by (cases x) simp_all

text \<open>
  For any reconciler that writes nothing but its own \<open>now\<close>: every status of the history is
  the first one or the clock reading of one of the runs, and the history is ordered when
  the clock readings are and the first status is not later than any of them.
\<close>

lemma states_values:
  assumes step: "\<And>k c. lastRestartTime (snd (R k c)) = lastRestartTime c \<or>
      (\<exists>t. lastRestartTime (snd (R k c)) = Some t \<and> instant t = instant (time_Now k))"
    and "x \<in> set (states R ks c)"
  shows "lastRestartTime x = lastRestartTime c \<or>
         (\<exists>k \<in> set ks. \<exists>t. lastRestartTime x = Some t \<and> instant t = instant (time_Now k))"
  using assms(2)
proof (induction ks arbitrary: c)
  case Nil
  then show ?case by simp
next
  case (Cons k ks)
  show ?case
  proof (cases "x = c")
    case True
    then show ?thesis by simp
  next
    case False
    with Cons.prems have "x \<in> set (states R ks (snd (R k c)))"
      by simp
    from Cons.IH [OF this] step [of k c] show ?thesis
      by auto
  qed
qed

lemma states_monotone:
  assumes step: "\<And>k c. lastRestartTime (snd (R k c)) = lastRestartTime c \<or>
      (\<exists>t. lastRestartTime (snd (R k c)) = Some t \<and> instant t = instant (time_Now k))"
    and "sorted (map (\<lambda>k. instant (time_Now k)) ks)"
    and "\<forall>k \<in> set ks. not_later (lastRestartTime c) (Some (time_Now k))"
  shows "sorted_wrt not_later (map lastRestartTime (states R ks c))"
  using assms(2,3)
proof (induction ks arbitrary: c)
  case Nil
  then show ?case by simp
next
  case (Cons k ks)
  let ?c' = "snd (R k c)"
  have bound': "\<forall>k' \<in> set ks. not_later (lastRestartTime ?c') (Some (time_Now k'))"
  proof
    fix k' assume k': "k' \<in> set ks"
    from step [of k c] show "not_later (lastRestartTime ?c') (Some (time_Now k'))"
    proof
      assume "lastRestartTime ?c' = lastRestartTime c"
      with Cons.prems(2) k' show ?thesis by simp
    next
      assume "\<exists>t. lastRestartTime ?c' = Some t \<and> instant t = instant (time_Now k)"
      then obtain t where t: "lastRestartTime ?c' = Some t" "instant t = instant (time_Now k)"
        by blast
      from Cons.prems(1) k' have "instant (time_Now k) \<le> instant (time_Now k')"
        by auto
      with t show ?thesis by simp
    qed
  qed
  have tail: "sorted_wrt not_later (map lastRestartTime (states R ks ?c'))"
    using Cons.IH [of ?c'] Cons.prems(1) bound' by simp
  have head: "not_later (lastRestartTime c) (lastRestartTime x)"
    if "x \<in> set (states R ks ?c')" for x
  proof -
    from states_values [of R x ks ?c', OF step that]
    consider "lastRestartTime x = lastRestartTime ?c'"
      | k' t where "k' \<in> set ks" "lastRestartTime x = Some t" "instant t = instant (time_Now k')"
      by blast
    then show ?thesis
    proof cases
      case 1
      from step [of k c] show ?thesis
      proof
        assume "lastRestartTime ?c' = lastRestartTime c"
        with 1 show ?thesis by (simp add: not_later_refl)
      next
        assume "\<exists>t. lastRestartTime ?c' = Some t \<and> instant t = instant (time_Now k)"
        then obtain t where t: "lastRestartTime ?c' = Some t" "instant t = instant (time_Now k)"
          by blast
        from Cons.prems(2) have "not_later (lastRestartTime c) (Some (time_Now k))"
          by simp
        with 1 t show ?thesis
          by (simp add: not_later_same_instant [of t "time_Now k"])
      qed
    next
      case 2
      from Cons.prems(2) 2(1) have "not_later (lastRestartTime c) (Some (time_Now k'))"
        by simp
      with 2 show ?thesis
        by (simp add: not_later_same_instant [of t "time_Now k'"])
    qed
  qed
  from head tail show ?case
    by simp
qed

text \<open>
  Claim C9. Take any sequence of reconciliations of one object, by either version, each
  with collaborators of its own (so any of them may fail), whose clock readings do not
  decrease, starting from a status that is unset or not later than those readings. Then the
  stored \<open>status.lastRestartTime\<close>, taken before the first run and after each run, never
  decreases: every later value is at or after every earlier one.
\<close>

theorem lastRestartTime_monotone:
  assumes "sorted (map (\<lambda>k. instant (time_Now k)) ks)"
    and "\<forall>k \<in> set ks. not_later (lastRestartTime c) (Some (time_Now k))"
  shows "sorted_wrt not_later (map lastRestartTime (states Reconcile ks c)) \<and>
         sorted_wrt not_later (map lastRestartTime (states Reconcile_part_000 ks c))"
  using states_monotone [of Reconcile ks c, OF Reconcile_writes_now assms]
    states_monotone [of Reconcile_part_000 ks c, OF Reconcile_part_000_writes_now assms]
  by simp

text \<open>
  Three runs of the second version at 12:01:00, 12:04:30 and 12:04:31, from an unset
  status: an initialisation and two restarts, each writing its own \<open>now\<close>.
\<close>

theorem lastRestartTime_monotone_witness:
  "sorted (map (\<lambda>k. instant (time_Now k))
     [example_collaborators 60, example_collaborators 270, example_collaborators 271]) \<and>
   lastRestartTime example_cluster = None \<and>
   map lastRestartTime
     (states Reconcile_part_000
        [example_collaborators 60, example_collaborators 270, example_collaborators 271]
        example_cluster) =
     [None,
      Some \<lparr>instant = noon + seconds 60, location = ''Asia/Shanghai''\<rparr>,
      Some \<lparr>instant = noon + seconds 270, location = ''Asia/Shanghai''\<rparr>,
      Some \<lparr>instant = noon + seconds 271, location = ''Asia/Shanghai''\<rparr>] \<and>
   sorted_wrt not_later
     (map lastRestartTime
        (states Reconcile_part_000
           [example_collaborators 60, example_collaborators 270, example_collaborators 271]
           example_cluster)) \<and>
   sorted_wrt not_later
     (map lastRestartTime
        (states Reconcile
           [example_collaborators 60, example_collaborators 270, example_collaborators 271]
           example_cluster))"
proof -
  have clock: "sorted (map (\<lambda>k. instant (time_Now k))
      [example_collaborators 60, example_collaborators 270, example_collaborators 271])"
    by (simp add: example_defs)
  have unset: "lastRestartTime example_cluster = None"
    by (simp add: example_defs property_defs)
  then have bound: "\<forall>k \<in> set [example_collaborators 60, example_collaborators 270, example_collaborators 271].
      not_later (lastRestartTime example_cluster) (Some (time_Now k))"
    by simp
  have run: "map lastRestartTime
     (states Reconcile_part_000
        [example_collaborators 60, example_collaborators 270, example_collaborators 271]
        example_cluster) =
     [None,
      Some \<lparr>instant = noon + seconds 60, location = ''Asia/Shanghai''\<rparr>,
      Some \<lparr>instant = noon + seconds 270, location = ''Asia/Shanghai''\<rparr>,
      Some \<lparr>instant = noon + seconds 271, location = ''Asia/Shanghai''\<rparr>]"
    by (simp add: model_defs property_defs example_defs schedule_defs)
  from lastRestartTime_monotone [OF clock bound] clock unset run show ?thesis
    by simp
qed

end
